theory Spec2Isabelle
  imports
    Main
    "HOL-Library.AList"
    "HOL-Library.Char_ord"
    "HOL-Library.List_Lexorder"
    "HOL-Library.Product_Lexorder"
begin

section \<open>Values, documents and errors\<close>

text \<open>
  The router \<^verbatim>\<open>src/backend/routers/announcements.py\<close> works on MongoDB documents, which
  are Python dictionaries from field names to values. A dictionary is an association list
  in insertion order; \<open>map_of\<close> is the lookup. The values that occur are the null value,
  strings and object ids. An object id is kept as the text that \<^verbatim>\<open>str\<close> prints for it:
  lower-case hexadecimal digits, 24 of them for an id that the driver generates.
\<close>

type_synonym oid = string

datatype val = VNone | VStr string | VOid oid

type_synonym document = "(string \<times> val) list"

text \<open>
  The exceptions of the module: the \<^verbatim>\<open>HTTPException\<close> with its status code and detail,
  and the \<^verbatim>\<open>TypeError\<close> and \<^verbatim>\<open>AttributeError\<close> of the interpreter, which no handler
  catches.
\<close>

datatype error = HTTPException nat string | TypeError | AttributeError

text \<open>\<^verbatim>\<open>d.get(k)\<close> and \<^verbatim>\<open>d.get(k, default)\<close>.\<close>

definition dict_get :: "document \<Rightarrow> string \<Rightarrow> val" where
  "dict_get d k = (case map_of d k of None \<Rightarrow> VNone | Some v \<Rightarrow> v)"

definition dict_get_default :: "document \<Rightarrow> string \<Rightarrow> val \<Rightarrow> val" where
  "dict_get_default d k dflt = (case map_of d k of None \<Rightarrow> dflt | Some v \<Rightarrow> v)"

text \<open>Truth value of a Python value (\<^verbatim>\<open>if not d\<close>) and of an optional dictionary.\<close>

fun truthy :: "val \<Rightarrow> bool" where
  "truthy VNone = False"
| "truthy (VStr s) = (s \<noteq> [])"
| "truthy (VOid i) = True"

fun truthy_doc :: "document option \<Rightarrow> bool" where
  "truthy_doc None = False"
| "truthy_doc (Some d) = (d \<noteq> [])"

text \<open>\<^verbatim>\<open>str(v)\<close>.\<close>

fun str :: "val \<Rightarrow> string" where
  "str VNone = ''None''"
| "str (VStr s) = s"
| "str (VOid i) = i"

text \<open>An \<^verbatim>\<open>Optional[str]\<close> request parameter as a value.\<close>

fun optional :: "string option \<Rightarrow> val" where
  "optional None = VNone"
| "optional (Some s) = VStr s"

section \<open>Calendar dates\<close>

text \<open>
  A \<^verbatim>\<open>datetime.date\<close> is its year, month and day; Python compares dates as these triples,
  which is the lexicographic order on the product.

  \<^verbatim>\<open>date.fromisoformat\<close> follows the C implementation of CPython 3.11
  (\<^verbatim>\<open>date_fromisoformat\<close> and \<^verbatim>\<open>parse_isoformat_date\<close> in \<^verbatim>\<open>_datetimemodule.c\<close>). It works on
  the UTF-8 bytes of the text, accepts the lengths 7, 8 and 10, and reads a calendar date
  \<^verbatim>\<open>YYYY-MM-DD\<close> or \<^verbatim>\<open>YYYYMMDD\<close>, or an ISO week date \<^verbatim>\<open>YYYY-Www-D\<close>, \<^verbatim>\<open>YYYYWwwD\<close>,
  \<^verbatim>\<open>YYYY-Www\<close> or \<^verbatim>\<open>YYYYWww\<close>; bytes after the last field it reads are ignored. Every
  failure raises \<^verbatim>\<open>ValueError\<close>, here \<open>None\<close>.
\<close>

type_synonym date = "nat \<times> nat \<times> nat"

definition is_leap :: "nat \<Rightarrow> bool" where
  "is_leap y = (y mod 4 = 0 \<and> (y mod 100 \<noteq> 0 \<or> y mod 400 = 0))"

definition days_in_month :: "nat \<Rightarrow> nat \<Rightarrow> nat" where
  "days_in_month y m =
     (if m = 2 then (if is_leap y then 29 else 28)
      else if m = 4 \<or> m = 6 \<or> m = 9 \<or> m = 11 then 30 else 31)"

text \<open>The constructor of \<^verbatim>\<open>date\<close> checks the ranges of the three fields.\<close>

definition new_date :: "nat \<Rightarrow> nat \<Rightarrow> nat \<Rightarrow> date option" where
  "new_date y m d =
     (if 1 \<le> y \<and> y \<le> 9999 \<and> 1 \<le> m \<and> m \<le> 12 \<and> 1 \<le> d \<and> d \<le> days_in_month y m
      then Some (y, m, d) else None)"

text \<open>Ordinals: day 1 is the first of January of year 1. The years are at least 1 here.\<close>

definition days_before_year :: "nat \<Rightarrow> nat" where
  "days_before_year year = (let y = year - 1 in y * 365 + y div 4 - y div 100 + y div 400)"

definition days_before_month :: "nat \<Rightarrow> nat \<Rightarrow> nat" where
  "days_before_month year month =
     [0, 0, 31, 59, 90, 120, 151, 181, 212, 243, 273, 304, 334] ! month
       + (if month > 2 \<and> is_leap year then 1 else 0)"

definition ymd_to_ord :: "nat \<Rightarrow> nat \<Rightarrow> nat \<Rightarrow> nat" where
  "ymd_to_ord year month day = days_before_year year + days_before_month year month + day"

definition ord_to_ymd :: "nat \<Rightarrow> date" where
  "ord_to_ymd ordinal =
     (let n0 = ordinal - 1;
          n400 = n0 div 146097; na = n0 mod 146097;
          n100 = na div 36524; nb = na mod 36524;
          n4 = nb div 1461; nc = nb mod 1461;
          n1 = nc div 365; n = nc mod 365;
          year = n400 * 400 + 1 + n100 * 100 + n4 * 4 + n1
      in if n1 = 4 \<or> n100 = 4 then (year - 1, 12, 31)
         else
           let leapyear = (n1 = 3 \<and> (n4 \<noteq> 24 \<or> n100 = 3));
               month = (n + 50) div 32;
               preceding = [0, 0, 31, 59, 90, 120, 151, 181, 212, 243, 273, 304, 334] ! month
                             + (if month > 2 \<and> leapyear then 1 else 0)
           in if preceding > n
              then (year, month - 1, n - (preceding - days_in_month year (month - 1)) + 1)
              else (year, month, n - preceding + 1))"

definition iso_week1_monday :: "nat \<Rightarrow> nat" where
  "iso_week1_monday year =
     (let first_day = ymd_to_ord year 1 1;
          first_weekday = (first_day + 6) mod 7;
          week1_monday = first_day - first_weekday
      in if first_weekday > 3 then week1_monday + 7 else week1_monday)"

text \<open>
  \<^verbatim>\<open>iso_to_ymd\<close>, followed by the constructor. Week 53 exists in years that start on a
  Thursday, and in leap years that start on a Wednesday. For the year 0 the C arithmetic
  gives no date that the constructor accepts.
\<close>

definition iso_to_ymd :: "nat \<Rightarrow> nat \<Rightarrow> nat \<Rightarrow> date option" where
  "iso_to_ymd iso_year iso_week iso_day =
     (if iso_year = 0 then None
      else
        let first_weekday = (ymd_to_ord iso_year 1 1 + 6) mod 7;
            out_of_range =
              ((iso_week = 0 \<or> iso_week \<ge> 53) \<and>
               \<not> (iso_week = 53 \<and>
                    (first_weekday = 3 \<or> (first_weekday = 2 \<and> is_leap iso_year))))
        in if out_of_range then None
           else if iso_day = 0 \<or> iso_day \<ge> 8 then None
           else
             (case ord_to_ymd (iso_week1_monday iso_year + ((iso_week - 1) * 7 + iso_day - 1))
              of (y, m, d) \<Rightarrow> new_date y m d))"

text \<open>
  Reading the bytes: past the end of the text the C string has its terminating zero byte,
  which is neither a digit nor a hyphen nor a \<^verbatim>\<open>W\<close>.
\<close>

definition char_at :: "string \<Rightarrow> nat \<Rightarrow> char" where
  "char_at s i = (if i < length s then s ! i else CHR 0x00)"

definition digit_val :: "char \<Rightarrow> nat option" where
  "digit_val c =
     (if CHR ''0'' \<le> c \<and> c \<le> CHR ''9'' then Some (of_char c - 48) else None)"

fun parse_digits :: "string \<Rightarrow> nat \<Rightarrow> nat \<Rightarrow> nat \<Rightarrow> nat option" where
  "parse_digits s pos 0 var = Some var"
| "parse_digits s pos (Suc num_digits) var =
     (case digit_val (char_at s pos) of
        None \<Rightarrow> None
      | Some d \<Rightarrow> parse_digits s (pos + 1) num_digits (10 * var + d))"

definition fromisoformat :: "string \<Rightarrow> date option" where
  "fromisoformat s =
     (if length s \<noteq> 7 \<and> length s \<noteq> 8 \<and> length s \<noteq> 10 then None
      else case parse_digits s 0 4 0 of
        None \<Rightarrow> None
      | Some year \<Rightarrow>
          let uses_separator = (char_at s 4 = CHR ''-'');
              cursor = (if uses_separator then 5 else 4)
          in if char_at s cursor = CHR ''W''
             then (case parse_digits s (cursor + 1) 2 0 of
                     None \<Rightarrow> None
                   | Some iso_week \<Rightarrow>
                       if cursor + 3 < length s
                       then if uses_separator \<and> char_at s (cursor + 3) \<noteq> CHR ''-'' then None
                            else (case parse_digits s
                                         (if uses_separator then cursor + 4 else cursor + 3) 1 0 of
                                    None \<Rightarrow> None
                                  | Some iso_day \<Rightarrow> iso_to_ymd year iso_week iso_day)
                       else iso_to_ymd year iso_week 1)
             else (case parse_digits s cursor 2 0 of
                     None \<Rightarrow> None
                   | Some month \<Rightarrow>
                       if uses_separator \<and> char_at s (cursor + 2) \<noteq> CHR ''-'' then None
                       else (case parse_digits s
                                    (if uses_separator then cursor + 3 else cursor + 2) 2 0 of
                               None \<Rightarrow> None
                             | Some day \<Rightarrow> new_date year month day)))"

text \<open>
  \<^verbatim>\<open>parse_date\<close>: a falsy argument gives \<open>None\<close>; otherwise the text is parsed, and every
  exception gives \<open>None\<close> (a value that is not a string raises \<^verbatim>\<open>TypeError\<close> in
  \<^verbatim>\<open>fromisoformat\<close>).
\<close>

definition parse_date :: "val \<Rightarrow> date option" where
  "parse_date d =
     (if \<not> truthy d then None
      else case d of VStr s \<Rightarrow> fromisoformat s | _ \<Rightarrow> None)"

section \<open>The store\<close>

text \<open>
  \<^verbatim>\<open>bson.ObjectId(s)\<close> for a string: a text of length 24 is handed to
  \<^verbatim>\<open>bytes.fromhex\<close>, which reads pairs of hexadecimal digits and skips ASCII white space
  before a pair; anything else raises \<^verbatim>\<open>InvalidId\<close>, here \<open>None\<close>. The id is kept as the
  lower-case hexadecimal text of its bytes, so upper-case digits denote the same id.
\<close>

definition is_hex :: "char \<Rightarrow> bool" where
  "is_hex c =
     ((CHR ''0'' \<le> c \<and> c \<le> CHR ''9'') \<or> (CHR ''a'' \<le> c \<and> c \<le> CHR ''f'')
      \<or> (CHR ''A'' \<le> c \<and> c \<le> CHR ''F''))"

definition is_space :: "char \<Rightarrow> bool" where
  "is_space c = (c = CHR '' '' \<or> (CHR 0x09 \<le> c \<and> c \<le> CHR 0x0D))"

definition lower :: "char \<Rightarrow> char" where
  "lower c = (if CHR ''A'' \<le> c \<and> c \<le> CHR ''F'' then char_of (of_char c + (32::nat)) else c)"

fun fromhex :: "string \<Rightarrow> string option" where
  "fromhex [] = Some []"
| "fromhex [c] = (if is_space c then Some [] else None)"
| "fromhex (c # d # cs) =
     (if is_space c then fromhex (d # cs)
      else if is_hex c \<and> is_hex d then map_option (\<lambda>r. lower c # lower d # r) (fromhex cs)
      else None)"

definition ObjectId :: "string \<Rightarrow> oid option" where
  "ObjectId s = (if length s = 24 then fromhex s else None)"

text \<open>
  The two collections of \<^verbatim>\<open>..database\<close>. A collection is the list of its documents in
  the order \<^verbatim>\<open>find()\<close> yields them.
\<close>

record db =
  announcements_collection :: "document list"
  teachers_collection :: "document list"

text \<open>\<^verbatim>\<open>find_one({"_id": k})\<close>: the first document whose \<^verbatim>\<open>_id\<close> is \<open>k\<close>.\<close>

definition find_one :: "val \<Rightarrow> document list \<Rightarrow> document option" where
  "find_one k coll = List.find (\<lambda>d. map_of d ''_id'' = Some k) coll"

text \<open>
  \<^verbatim>\<open>insert_one(doc)\<close> for a document without \<^verbatim>\<open>_id\<close>: the driver adds a newly generated
  object id to the dictionary and stores it. The generated id is a parameter.
\<close>

definition insert_one :: "document \<Rightarrow> oid \<Rightarrow> document list \<Rightarrow> document \<times> document list" where
  "insert_one doc inserted_id coll =
     (let doc' = AList.update ''_id'' (VOid inserted_id) doc in (doc', coll @ [doc']))"

text \<open>\<^verbatim>\<open>update_one({"_id": k}, {"$set": updates})\<close>: the first match gets the fields set.\<close>

definition set_fields :: "document \<Rightarrow> document \<Rightarrow> document" where
  "set_fields updates d = fold (\<lambda>(f, v). AList.update f v) updates d"

fun update_one :: "val \<Rightarrow> document \<Rightarrow> document list \<Rightarrow> document list" where
  "update_one k updates [] = []"
| "update_one k updates (d # ds) =
     (if map_of d ''_id'' = Some k then set_fields updates d # ds
      else d # update_one k updates ds)"

text \<open>\<^verbatim>\<open>delete_one({"_id": k})\<close>: the first match is removed; the count is returned.\<close>

fun delete_one :: "val \<Rightarrow> document list \<Rightarrow> document list \<times> nat" where
  "delete_one k [] = ([], 0)"
| "delete_one k (d # ds) =
     (if map_of d ''_id'' = Some k then (ds, 1)
      else (case delete_one k ds of (ds', n) \<Rightarrow> (d # ds', n)))"

text \<open>
  \<^verbatim>\<open>find().sort("expire_date", 1)\<close>: the server orders values by type first (null and
  missing fields, then strings, then object ids) and strings by their bytes.
\<close>

fun bson_key :: "val \<Rightarrow> nat \<times> string" where
  "bson_key VNone = (0, [])"
| "bson_key (VStr s) = (1, s)"
| "bson_key (VOid i) = (2, i)"

definition find_sorted_by_expire_date :: "document list \<Rightarrow> document list" where
  "find_sorted_by_expire_date coll = sort_key (\<lambda>d. bson_key (dict_get d ''expire_date'')) coll"

section \<open>The endpoints\<close>

definition serialize_ann :: "document \<Rightarrow> document" where
  "serialize_ann ann =
     (let out = AList.delete ''_id'' ann
      in AList.update ''id'' (VStr (str (dict_get ann ''_id''))) out)"

definition list_announcements :: "db \<Rightarrow> document list" where
  "list_announcements s = map serialize_ann (find_sorted_by_expire_date (announcements_collection s))"

text \<open>The loop of \<^verbatim>\<open>list_active_announcements\<close>, with the list \<^verbatim>\<open>active\<close> it appends to.\<close>

fun active_loop :: "date \<Rightarrow> document list \<Rightarrow> document list \<Rightarrow> document list" where
  "active_loop today [] active = active"
| "active_loop today (ann # anns) active =
     (let start = parse_date (dict_get ann ''start_date'');
          expire = parse_date (dict_get ann ''expire_date'')
      in case expire of
           None \<Rightarrow> active_loop today anns active
         | Some e \<Rightarrow>
             if (case start of None \<Rightarrow> False | Some st \<Rightarrow> st > today)
             then active_loop today anns active
             else if e \<ge> today then active_loop today anns (active @ [serialize_ann ann])
             else active_loop today anns active)"

text \<open>
  The three tests of the loop body as one predicate: whether the loop appends the record.
\<close>

definition is_active :: "date \<Rightarrow> document \<Rightarrow> bool" where
  "is_active today ann =
     (case parse_date (dict_get ann ''expire_date'') of
        None \<Rightarrow> False
      | Some e \<Rightarrow>
          (case parse_date (dict_get ann ''start_date'') of
             None \<Rightarrow> e \<ge> today
           | Some st \<Rightarrow> \<not> st > today \<and> e \<ge> today))"

text \<open>
  \<^verbatim>\<open>active.sort(key=lambda a: a.get("expire_date", ""))\<close>. Python's sort is stable and
  compares the keys with \<^verbatim>\<open><\<close>: strings with strings by code point, object ids with
  object ids; any other pair raises \<^verbatim>\<open>TypeError\<close>. A list of at most one element is
  never compared.
\<close>

definition expire_key :: "document \<Rightarrow> val" where
  "expire_key a = dict_get_default a ''expire_date'' (VStr [])"

fun is_str :: "val \<Rightarrow> bool" where
  "is_str (VStr s) = True"
| "is_str v = False"

fun is_oid :: "val \<Rightarrow> bool" where
  "is_oid (VOid i) = True"
| "is_oid v = False"

definition sort_by_expire_date :: "document list \<Rightarrow> error + document list" where
  "sort_by_expire_date xs =
     (if length xs \<le> 1 then Inr xs
      else if list_all (\<lambda>a. is_str (expire_key a)) xs
        then Inr (sort_key (\<lambda>a. str (expire_key a)) xs)
      else if list_all (\<lambda>a. is_oid (expire_key a)) xs
        then Inr (sort_key (\<lambda>a. str (expire_key a)) xs)
      else Inl TypeError)"

definition list_active_announcements :: "date \<Rightarrow> db \<Rightarrow> error + document list" where
  "list_active_announcements today s =
     sort_by_expire_date (active_loop today (announcements_collection s) [])"

text \<open>
  \<^verbatim>\<open>create_announcement\<close>. The id the driver generates and the text of
  \<^verbatim>\<open>datetime.utcnow().isoformat()\<close> are parameters. An endpoint that writes returns
  its response, or the exception it raises, together with the store after the call.
\<close>

definition create_announcement ::
  "string \<Rightarrow> string \<Rightarrow> string \<Rightarrow> string option \<Rightarrow> string \<Rightarrow> oid \<Rightarrow> string \<Rightarrow> db
     \<Rightarrow> (error + document) \<times> db" where
  "create_announcement title message expire_date start_date teacher_username inserted_id utcnow s =
     (let teacher = find_one (VStr teacher_username) (teachers_collection s) in
      if \<not> truthy_doc teacher then (Inl (HTTPException 401 ''Authentication required''), s)
      else case parse_date (VStr expire_date) of
        None \<Rightarrow>
          (Inl (HTTPException 400 ''Invalid expire_date format, expected YYYY-MM-DD''), s)
      | Some exp \<Rightarrow>
          let start = parse_date (optional start_date) in
          if (case start of None \<Rightarrow> False | Some st \<Rightarrow> st > exp)
          then (Inl (HTTPException 400 ''start_date cannot be after expire_date''), s)
          else
            let doc = [(''title'', VStr title),
                       (''message'', VStr message),
                       (''start_date'', if start \<noteq> None then optional start_date else VNone),
                       (''expire_date'', VStr expire_date),
                       (''created_by'', VStr teacher_username),
                       (''created_at'', VStr (utcnow @ ''Z''))];
                (doc1, coll) = insert_one doc inserted_id (announcements_collection s);
                doc2 = AList.update ''id'' (VStr (str (VOid inserted_id))) doc1
            in (Inr (serialize_ann (AList.update ''_id'' (VOid inserted_id) doc2)),
                s\<lparr>announcements_collection := coll\<rparr>))"

text \<open>\<^verbatim>\<open>update_announcement\<close>; \<open>None\<close> is a parameter that the request leaves out.\<close>

definition update_announcement ::
  "string \<Rightarrow> string option \<Rightarrow> string option \<Rightarrow> string option \<Rightarrow> string option \<Rightarrow> string \<Rightarrow> db
     \<Rightarrow> (error + document) \<times> db" where
  "update_announcement announcement_id title message expire_date start_date teacher_username s =
     (let teacher = find_one (VStr teacher_username) (teachers_collection s) in
      if \<not> truthy_doc teacher then (Inl (HTTPException 401 ''Authentication required''), s)
      else case ObjectId announcement_id of
        None \<Rightarrow> (Inl (HTTPException 400 ''Invalid announcement id''), s)
      | Some i \<Rightarrow>
          let ann = find_one (VOid i) (announcements_collection s) in
          if \<not> truthy_doc ann then (Inl (HTTPException 404 ''Announcement not found''), s)
          else
            let updates0 = [];
                updates1 = (case title of None \<Rightarrow> updates0
                            | Some t \<Rightarrow> AList.update ''title'' (VStr t) updates0);
                updates2 = (case message of None \<Rightarrow> updates1
                            | Some m \<Rightarrow> AList.update ''message'' (VStr m) updates1)
            in if expire_date \<noteq> None \<and> parse_date (optional expire_date) = None
               then (Inl (HTTPException 400 ''Invalid expire_date format''), s)
               else
                 let updates3 = (case expire_date of None \<Rightarrow> updates2
                                 | Some e \<Rightarrow> AList.update ''expire_date'' (VStr e) updates2)
                 in if start_date \<noteq> None \<and> start_date \<noteq> Some []
                         \<and> parse_date (optional start_date) = None
                    then (Inl (HTTPException 400 ''Invalid start_date format''), s)
                    else
                      let updates = (case start_date of None \<Rightarrow> updates3
                                     | Some sd \<Rightarrow>
                                         AList.update ''start_date''
                                           (if sd \<noteq> [] then VStr sd else VNone) updates3)
                      in if updates = [] then (Inl (HTTPException 400 ''No updates provided''), s)
                         else
                           let coll = update_one (VOid i) updates (announcements_collection s);
                               s' = s\<lparr>announcements_collection := coll\<rparr>
                           in (case find_one (VOid i) coll of
                                 None \<Rightarrow> (Inl AttributeError, s')
                               | Some updated \<Rightarrow> (Inr (serialize_ann updated), s')))"

text \<open>\<^verbatim>\<open>delete_announcement\<close>; the response is the confirmation message.\<close>

definition delete_announcement :: "string \<Rightarrow> string \<Rightarrow> db \<Rightarrow> (error + document) \<times> db" where
  "delete_announcement announcement_id teacher_username s =
     (let teacher = find_one (VStr teacher_username) (teachers_collection s) in
      if \<not> truthy_doc teacher then (Inl (HTTPException 401 ''Authentication required''), s)
      else case ObjectId announcement_id of
        None \<Rightarrow> (Inl (HTTPException 400 ''Invalid announcement id''), s)
      | Some i \<Rightarrow>
          (case delete_one (VOid i) (announcements_collection s) of
             (coll, deleted_count) \<Rightarrow>
               if deleted_count = 0
               then (Inl (HTTPException 404 ''Announcement not found''),
                     s\<lparr>announcements_collection := coll\<rparr>)
               else (Inr [(''message'', VStr ''Announcement deleted'')],
                     s\<lparr>announcements_collection := coll\<rparr>)))"

text \<open>
  The dictionary \<^verbatim>\<open>updates\<close> as \<^verbatim>\<open>update_announcement\<close> has built it when it reaches
  the test \<^verbatim>\<open>if not updates\<close>, that is, when neither date check has raised.
\<close>

definition built_updates ::
  "string option \<Rightarrow> string option \<Rightarrow> string option \<Rightarrow> string option \<Rightarrow> document" where
  "built_updates title message expire_date start_date =
     (let updates0 = [];
          updates1 = (case title of None \<Rightarrow> updates0
                      | Some t \<Rightarrow> AList.update ''title'' (VStr t) updates0);
          updates2 = (case message of None \<Rightarrow> updates1
                      | Some m \<Rightarrow> AList.update ''message'' (VStr m) updates1);
          updates3 = (case expire_date of None \<Rightarrow> updates2
                      | Some e \<Rightarrow> AList.update ''expire_date'' (VStr e) updates2)
      in case start_date of None \<Rightarrow> updates3
         | Some sd \<Rightarrow>
             AList.update ''start_date'' (if sd \<noteq> [] then VStr sd else VNone) updates3)"

section \<open>Example stores\<close>

definition teacher_alice :: document where
  "teacher_alice = [(''_id'', VStr ''alice'')]"

definition ann_exam :: document where
  "ann_exam =
     [(''_id'', VOid ''000000000000000000000001''),
      (''title'', VStr ''Exam Notice''),
      (''message'', VStr ''Midterm moved''),
      (''start_date'', VNone),
      (''expire_date'', VStr ''2099-01-01''),
      (''created_by'', VStr ''alice''),
      (''created_at'', VStr ''2025-01-01T00:00:00Z'')]"

definition ann_old :: document where
  "ann_old =
     [(''_id'', VOid ''000000000000000000000002''),
      (''title'', VStr ''Old''),
      (''message'', VStr ''Past''),
      (''start_date'', VStr ''2020-01-01''),
      (''expire_date'', VStr ''2020-06-30''),
      (''created_by'', VStr ''alice''),
      (''created_at'', VStr ''2020-01-01T00:00:00Z'')]"

text \<open>
  Two records whose expiry dates are written in the two calendar formats: as texts,
  \<^verbatim>\<open>2026-12-31\<close> comes before \<^verbatim>\<open>20261104\<close>; as dates, the fourth of November comes first.
\<close>

definition ann_basic :: document where
  "ann_basic =
     [(''_id'', VOid ''000000000000000000000003''),
      (''title'', VStr ''Basic''),
      (''message'', VStr ''Written without hyphens''),
      (''start_date'', VNone),
      (''expire_date'', VStr ''20261104''),
      (''created_by'', VStr ''alice''),
      (''created_at'', VStr ''2026-01-01T00:00:00Z'')]"

definition ann_dash :: document where
  "ann_dash =
     [(''_id'', VOid ''000000000000000000000004''),
      (''title'', VStr ''Extended''),
      (''message'', VStr ''Written with hyphens''),
      (''start_date'', VNone),
      (''expire_date'', VStr ''2026-12-31''),
      (''created_by'', VStr ''alice''),
      (''created_at'', VStr ''2026-01-01T00:00:00Z'')]"

definition mixed_db :: db where
  "mixed_db =
     \<lparr>announcements_collection = [ann_basic, ann_old, ann_dash],
      teachers_collection = [teacher_alice]\<rparr>"

definition example_db :: db where
  "example_db =
     \<lparr>announcements_collection = [ann_exam, ann_old], teachers_collection = [teacher_alice]\<rparr>"


section \<open>Documents and serialisation\<close>

lemma parse_date_Some_is_str: "parse_date v = Some e \<Longrightarrow> \<exists>t. v = VStr t"
  by (cases v) (auto simp: parse_date_def)

lemma map_of_serialize_ann:
  "k \<noteq> ''_id'' \<Longrightarrow> k \<noteq> ''id'' \<Longrightarrow> map_of (serialize_ann ann) k = map_of ann k"
  by (simp add: serialize_ann_def Let_def update_conv')

lemma dict_get_serialize_ann:
  "k \<noteq> ''_id'' \<Longrightarrow> k \<noteq> ''id'' \<Longrightarrow> dict_get (serialize_ann ann) k = dict_get ann k"
  by (simp add: dict_get_def map_of_serialize_ann)

section \<open>The active view\<close>

lemma active_loop_filter:
  "active_loop today anns active = active @ map serialize_ann (filter (is_active today) anns)"
proof (induction anns arbitrary: active)
  case Nil
  show ?case by simp
next
  case (Cons ann anns)
  show ?case
    by (cases "parse_date (dict_get ann ''expire_date'')";
        cases "parse_date (dict_get ann ''start_date'')")
       (auto simp add: Cons.IH is_active_def Let_def)
qed

lemma is_active_expire_str:
  "is_active today ann \<Longrightarrow> \<exists>t. map_of ann ''expire_date'' = Some (VStr t)"
  unfolding is_active_def dict_get_def
  by (auto dest!: parse_date_Some_is_str split: option.splits)

lemma expire_key_active:
  "is_active today ann \<Longrightarrow>
     \<exists>t. expire_key (serialize_ann ann) = VStr t \<and> dict_get ann ''expire_date'' = VStr t"
  using is_active_expire_str [of today ann]
  by (auto simp: expire_key_def dict_get_default_def dict_get_def map_of_serialize_ann)

lemma is_active_serialize_cong:
  assumes eq: "serialize_ann a = serialize_ann b"
  shows "is_active today a = is_active today b"
proof -
  have "dict_get a ''expire_date'' = dict_get b ''expire_date''"
    using dict_get_serialize_ann [of "''expire_date''" a]
      dict_get_serialize_ann [of "''expire_date''" b] eq
    by simp
  moreover have "dict_get a ''start_date'' = dict_get b ''start_date''"
    using dict_get_serialize_ann [of "''start_date''" a]
      dict_get_serialize_ann [of "''start_date''" b] eq
    by simp
  ultimately show ?thesis by (simp add: is_active_def split: option.splits)
qed

lemma sort_by_expire_date_strs:
  assumes "list_all (\<lambda>a. is_str (expire_key a)) xs"
  shows "sort_by_expire_date xs = Inr (sort_key (\<lambda>a. str (expire_key a)) xs)"
proof (cases "length xs \<le> 1")
  case True
  then have "xs = [] \<or> (\<exists>x. xs = [x])"
    by (cases xs) auto
  then show ?thesis by (auto simp: sort_by_expire_date_def)
next
  case False
  with assms show ?thesis by (simp add: sort_by_expire_date_def)
qed

lemma active_keys_str:
  "list_all (\<lambda>a. is_str (expire_key a)) (map serialize_ann (filter (is_active today) anns))"
  by (auto simp: list_all_iff dest: expire_key_active)

lemma list_active_eq:
  "list_active_announcements today s =
     Inr (sort_key (\<lambda>a. str (expire_key a))
            (map serialize_ann (filter (is_active today) (announcements_collection s))))"
  by (simp add: list_active_announcements_def active_loop_filter sort_by_expire_date_strs
      active_keys_str)

lemma serialize_in_active_iff:
  "ann \<in> set anns \<Longrightarrow>
     serialize_ann ann \<in> serialize_ann ` {a \<in> set anns. is_active today a} \<longleftrightarrow>
       is_active today ann"
  using is_active_serialize_cong by blast

lemma is_active_iff:
  "is_active today ann \<longleftrightarrow>
     (\<exists>e. parse_date (dict_get ann ''expire_date'') = Some e \<and> today \<le> e \<and>
        (parse_date (dict_get ann ''start_date'') = None \<or>
         (\<exists>st. parse_date (dict_get ann ''start_date'') = Some st \<and> \<not> today < st)))"
  by (auto simp: is_active_def split: option.splits)

text \<open>
  C1. For every stored announcement, the active view includes (the serialisation of) the
  record if and only if its \<open>expire_date\<close> parses to a date that is today or later and its
  \<open>start_date\<close> does not parse or parses to a date that is not after today; a record whose
  \<open>expire_date\<close> does not parse is never included. The view never raises.
\<close>

theorem list_active_includes_iff:
  "\<exists>out. list_active_announcements today s = Inr out \<and>
     (\<forall>ann \<in> set (announcements_collection s).
        (serialize_ann ann \<in> set out \<longleftrightarrow>
           (\<exists>e. parse_date (dict_get ann ''expire_date'') = Some e \<and> today \<le> e \<and>
              (parse_date (dict_get ann ''start_date'') = None \<or>
               (\<exists>st. parse_date (dict_get ann ''start_date'') = Some st \<and> \<not> today < st)))) \<and>
        (parse_date (dict_get ann ''expire_date'') = None \<longrightarrow> serialize_ann ann \<notin> set out))"
proof -
  let ?out = "sort_key (\<lambda>a. str (expire_key a))
            (map serialize_ann (filter (is_active today) (announcements_collection s)))"
  have set_out:
    "set ?out = serialize_ann ` {a \<in> set (announcements_collection s). is_active today a}"
    by auto
  have iff: "serialize_ann ann \<in> set ?out \<longleftrightarrow> is_active today ann"
    if "ann \<in> set (announcements_collection s)" for ann
    unfolding set_out using that by (rule serialize_in_active_iff)
  have none: "\<not> is_active today ann"
    if "parse_date (dict_get ann ''expire_date'') = None" for ann
    using that by (simp add: is_active_def)
  have "\<forall>ann \<in> set (announcements_collection s).
          (serialize_ann ann \<in> set ?out \<longleftrightarrow>
           (\<exists>e. parse_date (dict_get ann ''expire_date'') = Some e \<and> today \<le> e \<and>
              (parse_date (dict_get ann ''start_date'') = None \<or>
               (\<exists>st. parse_date (dict_get ann ''start_date'') = Some st \<and> \<not> today < st)))) \<and>
          (parse_date (dict_get ann ''expire_date'') = None \<longrightarrow> serialize_ann ann \<notin> set ?out)"
    using iff none is_active_iff by blast
  with list_active_eq show ?thesis by blast
qed

theorem list_active_includes_iff_witness:
  "ann_exam \<in> set (announcements_collection example_db) \<and>
   ann_old \<in> set (announcements_collection example_db) \<and>
   (\<exists>out. list_active_announcements (2026, 11, 3) example_db = Inr out \<and>
      serialize_ann ann_exam \<in> set out \<and> serialize_ann ann_old \<notin> set out)"
proof -
  have m1: "ann_exam \<in> set (announcements_collection example_db)"
    and m2: "ann_old \<in> set (announcements_collection example_db)"
    by (simp_all add: example_db_def)
  have e1: "parse_date (dict_get ann_exam ''expire_date'') = Some (2099, 1, 1)"
    and s1: "parse_date (dict_get ann_exam ''start_date'') = None"
    and e2: "parse_date (dict_get ann_old ''expire_date'') = Some (2020, 6, 30)"
    by code_simp+
  have le: "((2026, 11, 3) :: date) \<le> (2099, 1, 1)" "\<not> ((2026, 11, 3) :: date) \<le> (2020, 6, 30)"
    by simp_all
  from list_active_includes_iff [of "(2026, 11, 3)" example_db] m1 m2 e1 s1 e2 le
  show ?thesis by auto
qed

text \<open>
  C9. The active view is the list of the serialised active records, in the order of the
  store, sorted (stably) by the raw \<open>expire_date\<close> string: the keys of the result are
  strings, and they ascend in the lexical order of strings. The parsed dates play no part
  in the order.
\<close>

theorem list_active_sorted:
  "\<exists>out keys.
      list_active_announcements today s = Inr out \<and>
      out = sort_key (\<lambda>a. str (expire_key a))
              (map serialize_ann (filter (is_active today) (announcements_collection s))) \<and>
      map (\<lambda>a. dict_get a ''expire_date'') out = map VStr keys \<and>
      map expire_key out = map VStr keys \<and>
      sorted keys"
proof -
  let ?xs = "map serialize_ann (filter (is_active today) (announcements_collection s))"
  let ?out = "sort_key (\<lambda>a. str (expire_key a)) ?xs"
  let ?keys = "map (\<lambda>a. str (expire_key a)) ?out"
  have key: "dict_get a ''expire_date'' = VStr (str (expire_key a)) \<and>
             expire_key a = VStr (str (expire_key a))" if "a \<in> set ?out" for a
  proof -
    from that obtain ann where "is_active today ann" and a: "a = serialize_ann ann"
      by auto
    then obtain t where "expire_key a = VStr t" "dict_get ann ''expire_date'' = VStr t"
      using expire_key_active by blast
    then show ?thesis
      by (simp add: a dict_get_serialize_ann)
  qed
  have "map (\<lambda>a. dict_get a ''expire_date'') ?out = map VStr ?keys"
    using key by (simp del: set_sort set_map set_filter)
  moreover have "map expire_key ?out = map VStr ?keys"
    using key by (simp del: set_sort set_map set_filter)
  moreover have "sorted ?keys"
    by (rule sorted_sort_key)
  ultimately show ?thesis
    using list_active_eq [of today s] by blast
qed

text \<open>
  An instance in which the two orders differ: the store holds the record that expires on
  \<^verbatim>\<open>20261104\<close> before the one that expires on \<^verbatim>\<open>2026-12-31\<close>, and a record that has
  expired. The view drops the expired record and returns the other two with the later
  date first, because its text is the smaller one.
\<close>

theorem list_active_sorted_witness:
  "list_active_announcements (2026, 11, 3) mixed_db
     = Inr [serialize_ann ann_dash, serialize_ann ann_basic] \<and>
   announcements_collection mixed_db = [ann_basic, ann_old, ann_dash] \<and>
   dict_get (serialize_ann ann_dash) ''expire_date'' = VStr ''2026-12-31'' \<and>
   dict_get (serialize_ann ann_basic) ''expire_date'' = VStr ''20261104'' \<and>
   ''2026-12-31'' < ''20261104'' \<and>
   parse_date (VStr ''2026-12-31'') = Some (2026, 12, 31) \<and>
   parse_date (VStr ''20261104'') = Some (2026, 11, 4) \<and>
   (2026, 11, 4) < ((2026, 12, 31) :: date)"
proof -
  from list_active_sorted [of "(2026, 11, 3)" mixed_db] obtain out
    where run: "list_active_announcements (2026, 11, 3) mixed_db = Inr out"
      and out: "out = sort_key (\<lambda>a. str (expire_key a))
              (map serialize_ann
                 (filter (is_active (2026, 11, 3)) (announcements_collection mixed_db)))"
    by blast
  have "sort_key (\<lambda>a. str (expire_key a))
              (map serialize_ann
                 (filter (is_active (2026, 11, 3)) (announcements_collection mixed_db)))
        = [serialize_ann ann_dash, serialize_ann ann_basic]"
    by code_simp
  with run out
  have "list_active_announcements (2026, 11, 3) mixed_db
     = Inr [serialize_ann ann_dash, serialize_ann ann_basic]"
    by simp
  moreover have "announcements_collection mixed_db = [ann_basic, ann_old, ann_dash]"
    by (simp add: mixed_db_def)
  moreover have "dict_get (serialize_ann ann_dash) ''expire_date'' = VStr ''2026-12-31''"
    and "dict_get (serialize_ann ann_basic) ''expire_date'' = VStr ''20261104''"
    and "''2026-12-31'' < ''20261104''"
    and "parse_date (VStr ''2026-12-31'') = Some (2026, 12, 31)"
    and "parse_date (VStr ''20261104'') = Some (2026, 11, 4)"
    by code_simp+
  moreover have "(2026, 11, 4) < ((2026, 12, 31) :: date)"
    by simp
  ultimately show ?thesis
    by blast
qed

section \<open>Creation\<close>

text \<open>
  What a create request that passes the three checks does: the document with the six
  fields and the generated id is appended, and the response is its serialisation.
\<close>

lemma create_announcement_passes:
  assumes auth: "truthy_doc (find_one (VStr teacher_username) (teachers_collection s))"
    and exp: "parse_date (VStr expire_date) = Some exp"
    and start: "parse_date (optional start_date) = None \<or>
                 (\<exists>st. parse_date (optional start_date) = Some st \<and> \<not> exp < st)"
    and doc: "doc = [(''title'', VStr title), (''message'', VStr message),
                     (''start_date'',
                        if parse_date (optional start_date) \<noteq> None
                        then optional start_date else VNone),
                     (''expire_date'', VStr expire_date),
                     (''created_by'', VStr teacher_username),
                     (''created_at'', VStr (utcnow @ ''Z'')),
                     (''_id'', VOid inserted_id)]"
  shows "create_announcement title message expire_date start_date teacher_username
           inserted_id utcnow s =
         (Inr (serialize_ann doc),
          s\<lparr>announcements_collection := announcements_collection s @ [doc]\<rparr>)"
  using auth exp start unfolding doc
  by (auto simp: create_announcement_def insert_one_def serialize_ann_def dict_get_def
      AList.delete_eq Let_def)

lemma set_list_announcements:
  "set (list_announcements s) = serialize_ann ` set (announcements_collection s)"
  by (simp add: list_announcements_def find_sorted_by_expire_date_def)

text \<open>
  C4. For a create request by an existing teacher with an \<open>expire_date\<close> that parses and
  a supplied \<open>start_date\<close> that parses, the request fails with the 400 error
  "start_date cannot be after expire_date" if and only if the parsed start date is
  strictly after the parsed expiry date; otherwise (equal dates included) it succeeds.
\<close>

theorem create_start_after_expire_iff:
  assumes "truthy_doc (find_one (VStr teacher_username) (teachers_collection s))"
    and "parse_date (VStr expire_date) = Some exp"
    and "parse_date (VStr sd) = Some st"
  shows "(fst (create_announcement title message expire_date (Some sd) teacher_username
                 inserted_id utcnow s)
            = Inl (HTTPException 400 ''start_date cannot be after expire_date'')
          \<longleftrightarrow> exp < st) \<and>
         (\<not> exp < st \<longrightarrow>
            (\<exists>resp. fst (create_announcement title message expire_date (Some sd)
                           teacher_username inserted_id utcnow s) = Inr resp))"
proof (cases "exp < st")
  case True
  with assms show ?thesis
    by (simp add: create_announcement_def)
next
  case False
  with assms have "parse_date (optional (Some sd)) = None \<or>
      (\<exists>st. parse_date (optional (Some sd)) = Some st \<and> \<not> exp < st)"
    by simp
  from create_announcement_passes [OF assms(1) assms(2) this refl] False
  show ?thesis by simp
qed

theorem create_start_after_expire_iff_witness:
  "truthy_doc (find_one (VStr ''alice'') (teachers_collection example_db)) \<and>
   parse_date (VStr ''2099-01-01'') = Some (2099, 1, 1) \<and>
   parse_date (VStr ''2099-06-01'') = Some (2099, 6, 1) \<and>
   fst (create_announcement ''Exam Notice'' ''Midterm moved'' ''2099-01-01''
          (Some ''2099-06-01'') ''alice'' ''000000000000000000000003''
          ''2026-11-03T00:00:00'' example_db)
     = Inl (HTTPException 400 ''start_date cannot be after expire_date'')"
proof -
  have a: "truthy_doc (find_one (VStr ''alice'') (teachers_collection example_db))"
    by code_simp
  have e: "parse_date (VStr ''2099-01-01'') = Some (2099, 1, 1)"
    by code_simp
  have b: "parse_date (VStr ''2099-06-01'') = Some (2099, 6, 1)"
    by code_simp
  have "((2099, 1, 1) :: date) < (2099, 6, 1)"
    by simp
  with create_start_after_expire_iff [OF a e b] a e b show ?thesis
    by blast
qed

text \<open>
  C5. A create request by an existing teacher with an \<open>expire_date\<close> that parses and a
  supplied \<open>start_date\<close> that does not parse succeeds, and the stored record (and the
  response) has the \<open>start_date\<close> field set to \<open>None\<close>.
\<close>

theorem create_unparseable_start_date:
  assumes "truthy_doc (find_one (VStr teacher_username) (teachers_collection s))"
    and "parse_date (VStr expire_date) = Some exp"
    and "parse_date (VStr sd) = None"
  shows "\<exists>resp doc.
           create_announcement title message expire_date (Some sd) teacher_username
             inserted_id utcnow s
           = (Inr resp, s\<lparr>announcements_collection := announcements_collection s @ [doc]\<rparr>) \<and>
           map_of doc ''start_date'' = Some VNone \<and>
           map_of resp ''start_date'' = Some VNone"
proof -
  from assms(3) have "parse_date (optional (Some sd)) = None \<or>
      (\<exists>st. parse_date (optional (Some sd)) = Some st \<and> \<not> exp < st)"
    by simp
  from create_announcement_passes [OF assms(1) assms(2) this refl] assms(3)
  show ?thesis
    by (auto simp: map_of_serialize_ann)
qed

theorem create_unparseable_start_date_witness:
  "truthy_doc (find_one (VStr ''alice'') (teachers_collection example_db)) \<and>
   parse_date (VStr ''2099-01-01'') = Some (2099, 1, 1) \<and>
   parse_date (VStr ''next week'') = None \<and>
   (\<exists>resp doc.
      create_announcement ''Exam Notice'' ''Midterm moved'' ''2099-01-01'' (Some ''next week'')
        ''alice'' ''000000000000000000000003'' ''2026-11-03T00:00:00'' example_db
      = (Inr resp,
         example_db\<lparr>announcements_collection :=
           announcements_collection example_db @ [doc]\<rparr>) \<and>
      map_of doc ''start_date'' = Some VNone \<and>
      map_of resp ''start_date'' = Some VNone)"
proof -
  have a: "truthy_doc (find_one (VStr ''alice'') (teachers_collection example_db))"
    by code_simp
  have e: "parse_date (VStr ''2099-01-01'') = Some (2099, 1, 1)"
    by code_simp
  have b: "parse_date (VStr ''next week'') = None"
    by code_simp
  from create_unparseable_start_date [OF a e b] a e b show ?thesis
    by blast
qed

lemma create_announcement_Inr:
  assumes "create_announcement title message expire_date start_date teacher_username
             inserted_id utcnow s = (Inr resp, s')"
  shows "truthy_doc (find_one (VStr teacher_username) (teachers_collection s)) \<and>
         (\<exists>exp. parse_date (VStr expire_date) = Some exp \<and>
            (parse_date (optional start_date) = None \<or>
             (\<exists>st. parse_date (optional start_date) = Some st \<and> \<not> exp < st)))"
  using assms
  by (auto simp: create_announcement_def Let_def split: if_splits option.splits prod.splits)

text \<open>
  C6, as the code has it. A successful create stores the title and the message exactly as
  they were supplied, and whether a request succeeds does not depend on them: the same
  request with an empty title and an empty message succeeds as well.
\<close>

theorem create_stores_title_message:
  assumes "create_announcement title message expire_date start_date teacher_username
             inserted_id utcnow s = (Inr resp, s')"
  shows "(\<exists>doc. announcements_collection s' = announcements_collection s @ [doc] \<and>
            map_of doc ''title'' = Some (VStr title) \<and>
            map_of doc ''message'' = Some (VStr message)) \<and>
         (\<exists>resp0 doc0.
            create_announcement [] [] expire_date start_date teacher_username inserted_id utcnow s
              = (Inr resp0,
                 s\<lparr>announcements_collection := announcements_collection s @ [doc0]\<rparr>) \<and>
            map_of doc0 ''title'' = Some (VStr []) \<and>
            map_of doc0 ''message'' = Some (VStr []))"
proof -
  from create_announcement_Inr [OF assms] obtain exp
    where auth: "truthy_doc (find_one (VStr teacher_username) (teachers_collection s))"
      and exp: "parse_date (VStr expire_date) = Some exp"
      and start: "parse_date (optional start_date) = None \<or>
             (\<exists>st. parse_date (optional start_date) = Some st \<and> \<not> exp < st)"
    by blast
  from create_announcement_passes [where title = title and message = message
      and utcnow = utcnow and inserted_id = inserted_id, OF auth exp start refl] assms
  have "\<exists>doc. announcements_collection s' = announcements_collection s @ [doc] \<and>
            map_of doc ''title'' = Some (VStr title) \<and>
            map_of doc ''message'' = Some (VStr message)"
    by auto
  moreover
  from create_announcement_passes [where title = "[]" and message = "[]"
      and utcnow = utcnow and inserted_id = inserted_id, OF auth exp start refl]
  have "\<exists>resp0 doc0.
            create_announcement [] [] expire_date start_date teacher_username inserted_id utcnow s
              = (Inr resp0,
                 s\<lparr>announcements_collection := announcements_collection s @ [doc0]\<rparr>) \<and>
            map_of doc0 ''title'' = Some (VStr []) \<and>
            map_of doc0 ''message'' = Some (VStr [])"
    by auto
  ultimately show ?thesis by blast
qed

text \<open>
  C6 as the specification has it fails: a request with an empty title and an empty
  message is stored.
\<close>

theorem create_empty_title_counterexample:
  "create_announcement [] [] ''2099-01-01'' None ''alice'' ''000000000000000000000003''
     ''2026-11-03T00:00:00'' example_db
   = (Inr [(''title'', VStr []), (''message'', VStr []), (''start_date'', VNone),
           (''expire_date'', VStr ''2099-01-01''), (''created_by'', VStr ''alice''),
           (''created_at'', VStr ''2026-11-03T00:00:00Z''),
           (''id'', VStr ''000000000000000000000003'')],
      \<lparr>announcements_collection =
         [ann_exam, ann_old,
          [(''title'', VStr []), (''message'', VStr []), (''start_date'', VNone),
           (''expire_date'', VStr ''2099-01-01''), (''created_by'', VStr ''alice''),
           (''created_at'', VStr ''2026-11-03T00:00:00Z''),
           (''_id'', VOid ''000000000000000000000003'')]],
       teachers_collection = [teacher_alice]\<rparr>)"
  by code_simp

theorem create_stores_title_message_witness:
  "create_announcement [] [] ''2099-01-01'' None ''alice'' ''000000000000000000000003''
     ''2026-11-03T00:00:00'' example_db
   = (Inr [(''title'', VStr []), (''message'', VStr []), (''start_date'', VNone),
           (''expire_date'', VStr ''2099-01-01''), (''created_by'', VStr ''alice''),
           (''created_at'', VStr ''2026-11-03T00:00:00Z''),
           (''id'', VStr ''000000000000000000000003'')],
      \<lparr>announcements_collection =
         [ann_exam, ann_old,
          [(''title'', VStr []), (''message'', VStr []), (''start_date'', VNone),
           (''expire_date'', VStr ''2099-01-01''), (''created_by'', VStr ''alice''),
           (''created_at'', VStr ''2026-11-03T00:00:00Z''),
           (''_id'', VOid ''000000000000000000000003'')]],
       teachers_collection = [teacher_alice]\<rparr>) \<and>
   (\<exists>doc. [ann_exam, ann_old,
          [(''title'', VStr []), (''message'', VStr []), (''start_date'', VNone),
           (''expire_date'', VStr ''2099-01-01''), (''created_by'', VStr ''alice''),
           (''created_at'', VStr ''2026-11-03T00:00:00Z''),
           (''_id'', VOid ''000000000000000000000003'')]]
         = announcements_collection example_db @ [doc] \<and>
      map_of doc ''title'' = Some (VStr []) \<and> map_of doc ''message'' = Some (VStr []))"
proof -
  have run: "create_announcement [] [] ''2099-01-01'' None ''alice'' ''000000000000000000000003''
     ''2026-11-03T00:00:00'' example_db
   = (Inr [(''title'', VStr []), (''message'', VStr []), (''start_date'', VNone),
           (''expire_date'', VStr ''2099-01-01''), (''created_by'', VStr ''alice''),
           (''created_at'', VStr ''2026-11-03T00:00:00Z''),
           (''id'', VStr ''000000000000000000000003'')],
      \<lparr>announcements_collection =
         [ann_exam, ann_old,
          [(''title'', VStr []), (''message'', VStr []), (''start_date'', VNone),
           (''expire_date'', VStr ''2099-01-01''), (''created_by'', VStr ''alice''),
           (''created_at'', VStr ''2026-11-03T00:00:00Z''),
           (''_id'', VOid ''000000000000000000000003'')]],
       teachers_collection = [teacher_alice]\<rparr>)"
    by code_simp
  from create_stores_title_message [OF run] run show ?thesis
    by simp
qed

text \<open>
  C10, as the code has it. Create compares \<open>expire_date\<close> with nothing but \<open>start_date\<close>:
  a request by an existing teacher whose \<open>expire_date\<close> parses and whose \<open>start_date\<close> is left
  out, does not parse, or is not after the expiry date succeeds, whatever the current date
  is. The stored record is in the unfiltered list; when its expiry date is before today,
  it is not in the active view.
\<close>

theorem create_expired_listed_not_active:
  assumes "truthy_doc (find_one (VStr teacher_username) (teachers_collection s))"
    and "parse_date (VStr expire_date) = Some exp"
    and "parse_date (optional start_date) = None \<or>
           (\<exists>st. parse_date (optional start_date) = Some st \<and> \<not> exp < st)"
  shows "\<exists>doc s'.
           create_announcement title message expire_date start_date teacher_username
             inserted_id utcnow s = (Inr (serialize_ann doc), s') \<and>
           s' = s\<lparr>announcements_collection := announcements_collection s @ [doc]\<rparr> \<and>
           serialize_ann doc \<in> set (list_announcements s') \<and>
           (exp < today \<longrightarrow>
              (\<exists>out. list_active_announcements today s' = Inr out \<and>
                 serialize_ann doc \<notin> set out))"
proof -
  define doc where "doc = [(''title'', VStr title), (''message'', VStr message),
                     (''start_date'',
                        if parse_date (optional start_date) \<noteq> None
                        then optional start_date else VNone),
                     (''expire_date'', VStr expire_date),
                     (''created_by'', VStr teacher_username),
                     (''created_at'', VStr (utcnow @ ''Z'')),
                     (''_id'', VOid inserted_id)]"
  define s' where "s' = s\<lparr>announcements_collection := announcements_collection s @ [doc]\<rparr>"
  have run: "create_announcement title message expire_date start_date teacher_username
             inserted_id utcnow s = (Inr (serialize_ann doc), s')"
    unfolding s'_def by (rule create_announcement_passes [OF assms doc_def])
  have mem: "doc \<in> set (announcements_collection s')"
    by (simp add: s'_def)
  then have listed: "serialize_ann doc \<in> set (list_announcements s')"
    by (simp add: set_list_announcements)
  have expire: "parse_date (dict_get doc ''expire_date'') = Some exp"
    using assms(2) by (simp add: doc_def dict_get_def)
  have "serialize_ann doc \<notin> set out"
    if "exp < today" and out: "list_active_announcements today s' = Inr out" for out
  proof -
    from that(1) expire have "\<not> is_active today doc"
      by (auto simp: is_active_def split: option.splits)
    with serialize_in_active_iff [OF mem, of today]
    have "serialize_ann doc \<notin> serialize_ann ` {a \<in> set (announcements_collection s'). is_active today a}"
      by simp
    with out show ?thesis
      by (auto simp: list_active_eq)
  qed
  with list_active_eq [of today s']
  have "exp < today \<longrightarrow>
              (\<exists>out. list_active_announcements today s' = Inr out \<and>
                 serialize_ann doc \<notin> set out)"
    by blast
  with run listed show ?thesis
    unfolding s'_def by blast
qed

theorem create_expired_listed_not_active_witness:
  "truthy_doc (find_one (VStr ''alice'') (teachers_collection example_db)) \<and>
   parse_date (VStr ''2000-01-01'') = Some (2000, 1, 1) \<and>
   parse_date (optional None) = None \<and>
   (2000, 1, 1) < ((2026, 11, 3) :: date) \<and>
   (\<exists>doc s'.
      create_announcement ''Old news'' ''Gone'' ''2000-01-01'' None ''alice''
        ''000000000000000000000003'' ''2026-11-03T00:00:00'' example_db
        = (Inr (serialize_ann doc), s') \<and>
      serialize_ann doc \<in> set (list_announcements s') \<and>
      (\<exists>out. list_active_announcements (2026, 11, 3) s' = Inr out \<and>
         serialize_ann doc \<notin> set out))"
proof -
  have a: "truthy_doc (find_one (VStr ''alice'') (teachers_collection example_db))"
    by code_simp
  have e: "parse_date (VStr ''2000-01-01'') = Some (2000, 1, 1)"
    by code_simp
  have b: "parse_date (optional None) = None \<or>
           (\<exists>st. parse_date (optional None) = Some st \<and> \<not> (2000, 1, 1) < st)"
    by (simp add: parse_date_def)
  have lt: "(2000, 1, 1) < ((2026, 11, 3) :: date)"
    by simp
  from create_expired_listed_not_active [where title = "''Old news''" and message = "''Gone''"
      and inserted_id = "''000000000000000000000003''" and utcnow = "''2026-11-03T00:00:00''"
      and today = "(2026, 11, 3)", OF a e b] a e lt
  show ?thesis
    by (auto simp: parse_date_def)
qed

text \<open>
  C10 as the specification has it fails: an existing teacher and an \<open>expire_date\<close>
  that parses do not suffice for create to succeed.
\<close>

theorem create_expired_counterexample:
  "create_announcement ''Old news'' ''Gone'' ''2000-01-01'' (Some ''2000-06-01'') ''alice''
     ''000000000000000000000003'' ''2026-11-03T00:00:00'' example_db
   = (Inl (HTTPException 400 ''start_date cannot be after expire_date''), example_db)"
  by code_simp

section \<open>The store operations\<close>

lemma find_one_Some:
  "find_one k coll = Some d \<Longrightarrow> d \<in> set coll \<and> map_of d ''_id'' = Some k \<and> truthy_doc (Some d)"
  by (auto simp: find_one_def find_Some_iff)

lemma find_one_None:
  "find_one k coll = None \<longleftrightarrow> (\<forall>d \<in> set coll. map_of d ''_id'' \<noteq> Some k)"
  by (auto simp: find_one_def find_None_iff)

lemma truthy_doc_find_one:
  "truthy_doc (find_one k coll) \<longleftrightarrow> (\<exists>d. find_one k coll = Some d)"
  by (cases "find_one k coll") (auto dest: find_one_Some)

lemma map_of_set_fields:
  "distinct (map fst updates) \<Longrightarrow> map_of (set_fields updates d) = map_of d ++ map_of updates"
proof (induction updates arbitrary: d)
  case Nil
  show ?case by (simp add: set_fields_def)
next
  case (Cons u updates)
  obtain k v where u: "u = (k, v)" by (cases u)
  from Cons.prems have notin: "k \<notin> dom (map_of updates)" and dist: "distinct (map fst updates)"
    by (auto simp: u dom_map_of_conv_image_fst)
  have "map_of (set_fields (u # updates) d) = map_of (set_fields updates (AList.update k v d))"
    by (simp add: set_fields_def u)
  also have "\<dots> = (map_of d)(k \<mapsto> v) ++ map_of updates"
    by (simp only: Cons.IH [OF dist] update_conv')
  also have "\<dots> = map_of d ++ map_of (u # updates)"
    using notin by (auto simp: u map_add_def fun_eq_iff split: option.splits)
  finally show ?case .
qed

lemma find_one_update_one:
  "find_one k coll = Some ann \<Longrightarrow> map_of (set_fields updates ann) ''_id'' = Some k \<Longrightarrow>
     find_one k (update_one k updates coll) = Some (set_fields updates ann)"
  by (induction coll) (auto simp: find_one_def)

lemma delete_one_none:
  "find_one k coll = None \<Longrightarrow> delete_one k coll = (coll, 0)"
  by (induction coll) (auto simp: find_one_def split: if_splits)

lemma delete_one_some:
  "find_one k coll = Some d \<Longrightarrow>
     \<exists>pre post. coll = pre @ d # post \<and> find_one k pre = None \<and>
        delete_one k coll = (pre @ post, 1)"
proof (induction coll)
  case Nil
  then show ?case by (simp add: find_one_def)
next
  case (Cons c coll)
  show ?case
  proof (cases "map_of c ''_id'' = Some k")
    case True
    with Cons.prems have "c = d" by (simp add: find_one_def)
    with True show ?thesis
      by (intro exI [of _ "[]"] exI [of _ coll]) (simp add: find_one_def)
  next
    case False
    with Cons.prems have "find_one k coll = Some d" by (simp add: find_one_def)
    from Cons.IH [OF this] obtain pre post
      where "coll = pre @ d # post" "find_one k pre = None" "delete_one k coll = (pre @ post, 1)"
      by blast
    with False show ?thesis
      by (intro exI [of _ "c # pre"] exI [of _ post]) (simp add: find_one_def)
  qed
qed

section \<open>Update\<close>

text \<open>
  What an update request that passes every check does: the record found under the id gets
  the supplied fields set, every other field keeps its value, and the response is the
  serialisation of the record read back.
\<close>

lemma built_updates_empty:
  "built_updates title message expire_date start_date = [] \<longleftrightarrow>
     title = None \<and> message = None \<and> expire_date = None \<and> start_date = None"
  by (cases title; cases message; cases expire_date; cases start_date)
     (simp_all add: built_updates_def)

lemma distinct_built_updates:
  "distinct (map fst (built_updates title message expire_date start_date))"
  by (cases title; cases message; cases expire_date; cases start_date)
     (simp_all add: built_updates_def)

lemma map_of_built_updates:
  "map_of (built_updates title message expire_date start_date) k =
     (if k = ''title'' then map_option VStr title
      else if k = ''message'' then map_option VStr message
      else if k = ''expire_date'' then map_option VStr expire_date
      else if k = ''start_date''
        then map_option (\<lambda>sd. if sd \<noteq> [] then VStr sd else VNone) start_date
      else None)"
  by (cases title; cases message; cases expire_date; cases start_date)
     (simp_all add: built_updates_def)

lemma update_announcement_checked:
  assumes auth: "truthy_doc (find_one (VStr teacher_username) (teachers_collection s))"
    and oid: "ObjectId announcement_id = Some i"
    and found: "find_one (VOid i) (announcements_collection s) = Some ann"
    and expire: "expire_date = None \<or> parse_date (optional expire_date) \<noteq> None"
    and start: "start_date = None \<or> start_date = Some [] \<or>
                  parse_date (optional start_date) \<noteq> None"
  shows "update_announcement announcement_id title message expire_date start_date
           teacher_username s =
         (if built_updates title message expire_date start_date = []
          then (Inl (HTTPException 400 ''No updates provided''), s)
          else case find_one (VOid i)
                      (update_one (VOid i) (built_updates title message expire_date start_date)
                         (announcements_collection s)) of
                 None \<Rightarrow>
                   (Inl AttributeError,
                    s\<lparr>announcements_collection :=
                        update_one (VOid i) (built_updates title message expire_date start_date)
                          (announcements_collection s)\<rparr>)
               | Some updated \<Rightarrow>
                   (Inr (serialize_ann updated),
                    s\<lparr>announcements_collection :=
                        update_one (VOid i) (built_updates title message expire_date start_date)
                          (announcements_collection s)\<rparr>))"
proof -
  from found have tr: "truthy_doc (Some ann)"
    by (auto dest: find_one_Some)
  show ?thesis
    using auth oid found tr expire start
    by (cases title; cases message; cases expire_date; cases start_date)
       (auto simp add: update_announcement_def built_updates_def Let_def cong: option.case_cong)
qed

lemma update_announcement_passes:
  assumes auth: "truthy_doc (find_one (VStr teacher_username) (teachers_collection s))"
    and oid: "ObjectId announcement_id = Some i"
    and found: "find_one (VOid i) (announcements_collection s) = Some ann"
    and expire: "expire_date = None \<or> parse_date (optional expire_date) \<noteq> None"
    and start: "start_date = None \<or> start_date = Some [] \<or>
                  parse_date (optional start_date) \<noteq> None"
    and some: "title \<noteq> None \<or> message \<noteq> None \<or> expire_date \<noteq> None \<or> start_date \<noteq> None"
  shows "\<exists>updated coll.
           update_announcement announcement_id title message expire_date start_date
             teacher_username s
           = (Inr (serialize_ann updated), s\<lparr>announcements_collection := coll\<rparr>) \<and>
           find_one (VOid i) coll = Some updated \<and>
           (\<forall>k. map_of updated k =
              (if k = ''title'' \<and> title \<noteq> None then map_option VStr title
               else if k = ''message'' \<and> message \<noteq> None then map_option VStr message
               else if k = ''expire_date'' \<and> expire_date \<noteq> None
                 then map_option VStr expire_date
               else if k = ''start_date'' \<and> start_date \<noteq> None
                 then map_option (\<lambda>sd. if sd \<noteq> [] then VStr sd else VNone) start_date
               else map_of ann k))"
proof -
  let ?ups = "built_updates title message expire_date start_date"
  let ?updated = "set_fields ?ups ann"
  let ?coll = "update_one (VOid i) ?ups (announcements_collection s)"
  from found have id: "map_of ann ''_id'' = Some (VOid i)"
    by (auto dest: find_one_Some)
  have fields: "map_of ?updated k = (map_of ann ++ map_of ?ups) k" for k
    by (simp only: map_of_set_fields [OF distinct_built_updates])
  have "map_of ?updated ''_id'' = Some (VOid i)"
    unfolding fields by (simp add: map_add_def map_of_built_updates id)
  with found have read: "find_one (VOid i) ?coll = Some ?updated"
    by (rule find_one_update_one)
  from some have "?ups \<noteq> []"
    by (simp add: built_updates_empty)
  with read have run: "update_announcement announcement_id title message expire_date start_date
             teacher_username s
           = (Inr (serialize_ann ?updated), s\<lparr>announcements_collection := ?coll\<rparr>)"
    by (simp add: update_announcement_checked [OF auth oid found expire start])
  have "\<forall>k. map_of ?updated k =
              (if k = ''title'' \<and> title \<noteq> None then map_option VStr title
               else if k = ''message'' \<and> message \<noteq> None then map_option VStr message
               else if k = ''expire_date'' \<and> expire_date \<noteq> None
                 then map_option VStr expire_date
               else if k = ''start_date'' \<and> start_date \<noteq> None
                 then map_option (\<lambda>sd. if sd \<noteq> [] then VStr sd else VNone) start_date
               else map_of ann k)"
    unfolding fields
    by (cases title; cases message; cases expire_date; cases start_date)
       (simp_all add: map_add_def map_of_built_updates)
  with run read show ?thesis by blast
qed

text \<open>
  C2, as the code has it. An update request that supplies none of the four fields always
  fails and leaves the store as it was, but the teacher is checked first: with a requester
  that is not an existing teacher the error is the 401, and the 400 "No updates provided"
  is the result when the requester is an existing teacher and the id is well-formed and
  identifies a stored record.
\<close>

theorem update_no_fields:
  "(\<exists>e. update_announcement announcement_id None None None None teacher_username s
          = (Inl e, s)) \<and>
   (\<not> truthy_doc (find_one (VStr teacher_username) (teachers_collection s)) \<longrightarrow>
      update_announcement announcement_id None None None None teacher_username s
        = (Inl (HTTPException 401 ''Authentication required''), s)) \<and>
   (truthy_doc (find_one (VStr teacher_username) (teachers_collection s)) \<and>
    (\<exists>i ann. ObjectId announcement_id = Some i \<and>
       find_one (VOid i) (announcements_collection s) = Some ann) \<longrightarrow>
      update_announcement announcement_id None None None None teacher_username s
        = (Inl (HTTPException 400 ''No updates provided''), s))"
proof (intro conjI impI)
  show "\<exists>e. update_announcement announcement_id None None None None teacher_username s
          = (Inl e, s)"
    by (simp add: update_announcement_def Let_def split: option.splits)
next
  assume "\<not> truthy_doc (find_one (VStr teacher_username) (teachers_collection s))"
  then show "update_announcement announcement_id None None None None teacher_username s
        = (Inl (HTTPException 401 ''Authentication required''), s)"
    by (simp add: update_announcement_def)
next
  assume a: "truthy_doc (find_one (VStr teacher_username) (teachers_collection s)) \<and>
    (\<exists>i ann. ObjectId announcement_id = Some i \<and>
       find_one (VOid i) (announcements_collection s) = Some ann)"
  then obtain i ann where oid: "ObjectId announcement_id = Some i"
    and found: "find_one (VOid i) (announcements_collection s) = Some ann"
    by blast
  from a have auth: "truthy_doc (find_one (VStr teacher_username) (teachers_collection s))"
    by blast
  have "built_updates None None None None = []"
    by (simp add: built_updates_empty)
  then show "update_announcement announcement_id None None None None teacher_username s
        = (Inl (HTTPException 400 ''No updates provided''), s)"
    by (simp add: update_announcement_checked [OF auth oid found])
qed

theorem update_no_fields_witness:
  "\<not> truthy_doc (find_one (VStr ''mallory'') (teachers_collection example_db)) \<and>
   update_announcement ''000000000000000000000001'' None None None None ''mallory'' example_db
     = (Inl (HTTPException 401 ''Authentication required''), example_db) \<and>
   truthy_doc (find_one (VStr ''alice'') (teachers_collection example_db)) \<and>
   ObjectId ''000000000000000000000001'' = Some ''000000000000000000000001'' \<and>
   find_one (VOid ''000000000000000000000001'') (announcements_collection example_db)
     = Some ann_exam \<and>
   update_announcement ''000000000000000000000001'' None None None None ''alice'' example_db
     = (Inl (HTTPException 400 ''No updates provided''), example_db)"
proof -
  have m: "\<not> truthy_doc (find_one (VStr ''mallory'') (teachers_collection example_db))"
    by code_simp
  have a: "truthy_doc (find_one (VStr ''alice'') (teachers_collection example_db))"
    by code_simp
  have i: "ObjectId ''000000000000000000000001'' = Some ''000000000000000000000001''"
    by code_simp
  have f: "find_one (VOid ''000000000000000000000001'') (announcements_collection example_db)
     = Some ann_exam"
    by code_simp
  from update_no_fields [of "''000000000000000000000001''" "''mallory''" example_db]
    update_no_fields [of "''000000000000000000000001''" "''alice''" example_db] m a i f
  show ?thesis by blast
qed

text \<open>
  C2 as the specification has it fails: without an existing teacher the request
  with no fields is answered with the 401, not with the 400.
\<close>

theorem update_no_fields_counterexample:
  "update_announcement ''000000000000000000000001'' None None None None ''mallory'' example_db
     = (Inl (HTTPException 401 ''Authentication required''), example_db)"
  by code_simp

text \<open>
  C8. An update by an existing teacher of a stored record that supplies only the title
  succeeds; afterwards the record has the new title, and its message, start date, expiry
  date, creator and creation time (and every other field) are what they were.
\<close>

theorem update_title_only:
  assumes "truthy_doc (find_one (VStr teacher_username) (teachers_collection s))"
    and "ObjectId announcement_id = Some i"
    and "find_one (VOid i) (announcements_collection s) = Some ann"
  shows "\<exists>updated coll.
           update_announcement announcement_id (Some t) None None None teacher_username s
             = (Inr (serialize_ann updated), s\<lparr>announcements_collection := coll\<rparr>) \<and>
           find_one (VOid i) coll = Some updated \<and>
           map_of updated ''title'' = Some (VStr t) \<and>
           map_of updated ''message'' = map_of ann ''message'' \<and>
           map_of updated ''start_date'' = map_of ann ''start_date'' \<and>
           map_of updated ''expire_date'' = map_of ann ''expire_date'' \<and>
           map_of updated ''created_by'' = map_of ann ''created_by'' \<and>
           map_of updated ''created_at'' = map_of ann ''created_at'' \<and>
           (\<forall>k. k \<noteq> ''title'' \<longrightarrow> map_of updated k = map_of ann k)"
proof -
  from update_announcement_passes [OF assms, of None None "Some t" None]
  obtain updated coll where
    run: "update_announcement announcement_id (Some t) None None None teacher_username s
             = (Inr (serialize_ann updated), s\<lparr>announcements_collection := coll\<rparr>)"
    and read: "find_one (VOid i) coll = Some updated"
    and fields: "\<And>k. map_of updated k = (if k = ''title'' then Some (VStr t) else map_of ann k)"
    by auto
  have "map_of updated ''title'' = Some (VStr t)"
    and "map_of updated ''message'' = map_of ann ''message''"
    and "map_of updated ''start_date'' = map_of ann ''start_date''"
    and "map_of updated ''expire_date'' = map_of ann ''expire_date''"
    and "map_of updated ''created_by'' = map_of ann ''created_by''"
    and "map_of updated ''created_at'' = map_of ann ''created_at''"
    and "\<forall>k. k \<noteq> ''title'' \<longrightarrow> map_of updated k = map_of ann k"
    by (simp_all add: fields)
  with run read show ?thesis by blast
qed

theorem update_title_only_witness:
  "truthy_doc (find_one (VStr ''alice'') (teachers_collection example_db)) \<and>
   ObjectId ''000000000000000000000001'' = Some ''000000000000000000000001'' \<and>
   find_one (VOid ''000000000000000000000001'') (announcements_collection example_db)
     = Some ann_exam \<and>
   (\<exists>updated coll.
      update_announcement ''000000000000000000000001'' (Some ''Exam moved'') None None None
        ''alice'' example_db
        = (Inr (serialize_ann updated), example_db\<lparr>announcements_collection := coll\<rparr>) \<and>
      find_one (VOid ''000000000000000000000001'') coll = Some updated \<and>
      map_of updated ''title'' = Some (VStr ''Exam moved'') \<and>
      map_of updated ''message'' = Some (VStr ''Midterm moved'') \<and>
      map_of updated ''start_date'' = Some VNone \<and>
      map_of updated ''expire_date'' = Some (VStr ''2099-01-01'') \<and>
      map_of updated ''created_by'' = Some (VStr ''alice'') \<and>
      map_of updated ''created_at'' = Some (VStr ''2025-01-01T00:00:00Z''))"
proof -
  have a: "truthy_doc (find_one (VStr ''alice'') (teachers_collection example_db))"
    by code_simp
  have i: "ObjectId ''000000000000000000000001'' = Some ''000000000000000000000001''"
    by code_simp
  have f: "find_one (VOid ''000000000000000000000001'') (announcements_collection example_db)
     = Some ann_exam"
    by code_simp
  have old: "map_of ann_exam ''message'' = Some (VStr ''Midterm moved'')"
    "map_of ann_exam ''start_date'' = Some VNone"
    "map_of ann_exam ''expire_date'' = Some (VStr ''2099-01-01'')"
    "map_of ann_exam ''created_by'' = Some (VStr ''alice'')"
    "map_of ann_exam ''created_at'' = Some (VStr ''2025-01-01T00:00:00Z'')"
    by (simp_all add: ann_exam_def)
  from update_title_only [OF a i f, of "''Exam moved''"] a i f show ?thesis
    unfolding old by blast
qed

text \<open>
  C3, as the code has it. The checks of \<open>start_date\<close> come after the check of
  \<open>expire_date\<close>, so they are reached only when \<open>expire_date\<close> is left out or parses. Then,
  for an update by an existing teacher of a stored record: a non-empty \<open>start_date\<close> that
  does not parse gives the 400 "Invalid start_date format" and leaves the store as it was;
  an empty one sets the stored \<open>start_date\<close> to \<open>None\<close>; one that parses is stored as given.
  The stored \<open>expire_date\<close> is not consulted: an update that supplies only a \<open>start_date\<close>
  after the stored expiry date succeeds and leaves the expiry date as it was.
\<close>

theorem update_start_date:
  assumes "truthy_doc (find_one (VStr teacher_username) (teachers_collection s))"
    and "ObjectId announcement_id = Some i"
    and "find_one (VOid i) (announcements_collection s) = Some ann"
    and "expire_date = None \<or> parse_date (optional expire_date) \<noteq> None"
  shows "(sd \<noteq> [] \<and> parse_date (VStr sd) = None \<longrightarrow>
            update_announcement announcement_id title message expire_date (Some sd)
              teacher_username s
            = (Inl (HTTPException 400 ''Invalid start_date format''), s)) \<and>
         (sd = [] \<or> parse_date (VStr sd) \<noteq> None \<longrightarrow>
            (\<exists>updated coll.
               update_announcement announcement_id title message expire_date (Some sd)
                 teacher_username s
               = (Inr (serialize_ann updated), s\<lparr>announcements_collection := coll\<rparr>) \<and>
               find_one (VOid i) coll = Some updated \<and>
               map_of updated ''start_date'' = Some (if sd = [] then VNone else VStr sd))) \<and>
         (\<forall>e st. parse_date (dict_get ann ''expire_date'') = Some e \<and>
                  parse_date (VStr sd) = Some st \<and> e < st \<longrightarrow>
            (\<exists>updated coll.
               update_announcement announcement_id None None None (Some sd) teacher_username s
               = (Inr (serialize_ann updated), s\<lparr>announcements_collection := coll\<rparr>) \<and>
               find_one (VOid i) coll = Some updated \<and>
               map_of updated ''start_date'' = Some (VStr sd) \<and>
               map_of updated ''expire_date'' = map_of ann ''expire_date''))"
proof (intro conjI impI allI)
  assume bad: "sd \<noteq> [] \<and> parse_date (VStr sd) = None"
  from assms(3) have "truthy_doc (Some ann)"
    by (auto dest: find_one_Some)
  with assms bad
  show "update_announcement announcement_id title message expire_date (Some sd)
              teacher_username s
            = (Inl (HTTPException 400 ''Invalid start_date format''), s)"
    by (cases expire_date) (auto simp: update_announcement_def Let_def)
next
  assume ok: "sd = [] \<or> parse_date (VStr sd) \<noteq> None"
  then have start: "Some sd = None \<or> Some sd = Some [] \<or> parse_date (optional (Some sd)) \<noteq> None"
    by auto
  from update_announcement_passes [OF assms(1-3) assms(4) start, of title message]
  obtain updated coll where
    run: "update_announcement announcement_id title message expire_date (Some sd)
                 teacher_username s
               = (Inr (serialize_ann updated), s\<lparr>announcements_collection := coll\<rparr>)"
    and read: "find_one (VOid i) coll = Some updated"
    and fields: "map_of updated ''start_date'' = Some (if sd \<noteq> [] then VStr sd else VNone)"
    by auto
  from fields have "map_of updated ''start_date'' = Some (if sd = [] then VNone else VStr sd)"
    by simp
  with run read
  show "\<exists>updated coll.
               update_announcement announcement_id title message expire_date (Some sd)
                 teacher_username s
               = (Inr (serialize_ann updated), s\<lparr>announcements_collection := coll\<rparr>) \<and>
               find_one (VOid i) coll = Some updated \<and>
               map_of updated ''start_date'' = Some (if sd = [] then VNone else VStr sd)"
    by blast
next
  fix e st
  assume later: "parse_date (dict_get ann ''expire_date'') = Some e \<and>
                  parse_date (VStr sd) = Some st \<and> e < st"
  then have ne: "sd \<noteq> []"
    by (auto simp: parse_date_def)
  from later have start: "Some sd = None \<or> Some sd = Some [] \<or>
      parse_date (optional (Some sd)) \<noteq> None"
    by auto
  have expire: "(None :: string option) = None \<or> parse_date (optional None) \<noteq> None"
    by simp
  from update_announcement_passes [OF assms(1-3) expire start, of None None]
  obtain updated coll where
    run: "update_announcement announcement_id None None None (Some sd) teacher_username s
               = (Inr (serialize_ann updated), s\<lparr>announcements_collection := coll\<rparr>)"
    and read: "find_one (VOid i) coll = Some updated"
    and fields: "\<And>k. map_of updated k =
        (if k = ''start_date'' then Some (if sd \<noteq> [] then VStr sd else VNone)
         else map_of ann k)"
    by auto
  from ne have "map_of updated ''start_date'' = Some (VStr sd)"
    and "map_of updated ''expire_date'' = map_of ann ''expire_date''"
    by (simp_all add: fields)
  with run read
  show "\<exists>updated coll.
               update_announcement announcement_id None None None (Some sd) teacher_username s
               = (Inr (serialize_ann updated), s\<lparr>announcements_collection := coll\<rparr>) \<and>
               find_one (VOid i) coll = Some updated \<and>
               map_of updated ''start_date'' = Some (VStr sd) \<and>
               map_of updated ''expire_date'' = map_of ann ''expire_date''"
    by blast
qed

theorem update_start_date_witness:
  "truthy_doc (find_one (VStr ''alice'') (teachers_collection example_db)) \<and>
   ObjectId ''000000000000000000000001'' = Some ''000000000000000000000001'' \<and>
   find_one (VOid ''000000000000000000000001'') (announcements_collection example_db)
     = Some ann_exam \<and>
   parse_date (dict_get ann_exam ''expire_date'') = Some (2099, 1, 1) \<and>
   parse_date (VStr ''2100-01-01'') = Some (2100, 1, 1) \<and>
   (2099, 1, 1) < ((2100, 1, 1) :: date) \<and>
   (\<exists>updated coll.
      update_announcement ''000000000000000000000001'' None None None (Some ''2100-01-01'')
        ''alice'' example_db
      = (Inr (serialize_ann updated), example_db\<lparr>announcements_collection := coll\<rparr>) \<and>
      find_one (VOid ''000000000000000000000001'') coll = Some updated \<and>
      map_of updated ''start_date'' = Some (VStr ''2100-01-01'') \<and>
      map_of updated ''expire_date'' = Some (VStr ''2099-01-01'')) \<and>
   parse_date (VStr ''soon'') = None \<and>
   update_announcement ''000000000000000000000001'' None None None (Some ''soon'')
     ''alice'' example_db
     = (Inl (HTTPException 400 ''Invalid start_date format''), example_db)"
proof -
  have a: "truthy_doc (find_one (VStr ''alice'') (teachers_collection example_db))"
    by code_simp
  have i: "ObjectId ''000000000000000000000001'' = Some ''000000000000000000000001''"
    by code_simp
  have f: "find_one (VOid ''000000000000000000000001'') (announcements_collection example_db)
     = Some ann_exam"
    by code_simp
  have x: "(None :: string option) = None \<or> parse_date (optional None) \<noteq> None"
    by simp
  have e: "parse_date (dict_get ann_exam ''expire_date'') = Some (2099, 1, 1)"
    by code_simp
  have st: "parse_date (VStr ''2100-01-01'') = Some (2100, 1, 1)"
    by code_simp
  have lt: "(2099, 1, 1) < ((2100, 1, 1) :: date)"
    by simp
  have bad: "parse_date (VStr ''soon'') = None" "''soon'' \<noteq> []"
    by code_simp+
  have old: "map_of ann_exam ''expire_date'' = Some (VStr ''2099-01-01'')"
    by (simp add: ann_exam_def)
  from update_start_date [OF a i f x, of "''2100-01-01''" None None] e st lt
  have "\<exists>updated coll.
      update_announcement ''000000000000000000000001'' None None None (Some ''2100-01-01'')
        ''alice'' example_db
      = (Inr (serialize_ann updated), example_db\<lparr>announcements_collection := coll\<rparr>) \<and>
      find_one (VOid ''000000000000000000000001'') coll = Some updated \<and>
      map_of updated ''start_date'' = Some (VStr ''2100-01-01'') \<and>
      map_of updated ''expire_date'' = Some (VStr ''2099-01-01'')"
    unfolding old by blast
  moreover from update_start_date [OF a i f x, of "''soon''" None None] bad
  have "update_announcement ''000000000000000000000001'' None None None (Some ''soon'')
     ''alice'' example_db
     = (Inl (HTTPException 400 ''Invalid start_date format''), example_db)"
    by blast
  ultimately show ?thesis
    using a i f e st lt bad by blast
qed

text \<open>
  C3 as the specification has it fails: when \<open>expire_date\<close> is supplied and does not
  parse, a non-empty \<open>start_date\<close> that does not parse is not reported; the request is
  answered with "Invalid expire_date format".
\<close>

theorem update_start_date_counterexample:
  "update_announcement ''000000000000000000000001'' None None (Some ''never'') (Some ''soon'')
     ''alice'' example_db
     = (Inl (HTTPException 400 ''Invalid expire_date format''), example_db)"
  by code_simp

section \<open>Deletion\<close>

lemma find_one_append:
  "find_one k (xs @ ys) = (case find_one k xs of None \<Rightarrow> find_one k ys | Some d \<Rightarrow> Some d)"
  by (induction xs) (simp_all add: find_one_def)

lemma find_one_after_delete:
  assumes dist: "distinct (map (\<lambda>d. map_of d ''_id'') (pre @ d # post))"
    and id: "map_of d ''_id'' = Some k"
    and pre: "find_one k pre = None"
  shows "find_one k (pre @ post) = None"
proof -
  from dist id have "\<forall>c \<in> set post. map_of c ''_id'' \<noteq> Some k"
    by (auto simp: image_iff)
  then have "find_one k post = None"
    by (simp add: find_one_None)
  with pre show ?thesis
    by (simp add: find_one_append)
qed

text \<open>
  C7. For a delete request by an existing teacher with a well-formed id: when no record
  has the id, the request fails with the 404 and the store is as it was; when a record has
  it, that record is removed, the others stay in their order, and the confirmation is
  returned. The ids of a collection being unique, a second delete of the same id then
  fails with the 404.
\<close>

theorem delete_announcement_result:
  assumes "truthy_doc (find_one (VStr teacher_username) (teachers_collection s))"
    and "ObjectId announcement_id = Some i"
  shows "(find_one (VOid i) (announcements_collection s) = None \<longrightarrow>
            delete_announcement announcement_id teacher_username s
              = (Inl (HTTPException 404 ''Announcement not found''), s)) \<and>
         (\<forall>d. find_one (VOid i) (announcements_collection s) = Some d \<longrightarrow>
            (\<exists>pre post.
               announcements_collection s = pre @ d # post \<and>
               delete_announcement announcement_id teacher_username s
                 = (Inr [(''message'', VStr ''Announcement deleted'')],
                    s\<lparr>announcements_collection := pre @ post\<rparr>) \<and>
               (distinct (map (\<lambda>d. map_of d ''_id'') (announcements_collection s)) \<longrightarrow>
                  delete_announcement announcement_id teacher_username
                    (s\<lparr>announcements_collection := pre @ post\<rparr>)
                  = (Inl (HTTPException 404 ''Announcement not found''),
                     s\<lparr>announcements_collection := pre @ post\<rparr>))))"
proof (intro conjI impI allI)
  assume "find_one (VOid i) (announcements_collection s) = None"
  then have "delete_one (VOid i) (announcements_collection s) = (announcements_collection s, 0)"
    by (rule delete_one_none)
  with assms show "delete_announcement announcement_id teacher_username s
              = (Inl (HTTPException 404 ''Announcement not found''), s)"
    by (simp add: delete_announcement_def)
next
  fix d
  assume found: "find_one (VOid i) (announcements_collection s) = Some d"
  from delete_one_some [OF found] obtain pre post
    where split: "announcements_collection s = pre @ d # post"
      and pre: "find_one (VOid i) pre = None"
      and del: "delete_one (VOid i) (announcements_collection s) = (pre @ post, 1)"
    by blast
  from found have id: "map_of d ''_id'' = Some (VOid i)"
    by (simp add: find_one_Some)
  let ?s' = "s\<lparr>announcements_collection := pre @ post\<rparr>"
  from assms del have first: "delete_announcement announcement_id teacher_username s
                 = (Inr [(''message'', VStr ''Announcement deleted'')], ?s')"
    by (simp add: delete_announcement_def)
  have second: "delete_announcement announcement_id teacher_username ?s'
                  = (Inl (HTTPException 404 ''Announcement not found''), ?s')"
    if "distinct (map (\<lambda>d. map_of d ''_id'') (announcements_collection s))"
  proof -
    from that have "find_one (VOid i) (pre @ post) = None"
      unfolding split using id pre by (rule find_one_after_delete)
    then have "delete_one (VOid i) (pre @ post) = (pre @ post, 0)"
      by (rule delete_one_none)
    with assms show ?thesis
      by (simp add: delete_announcement_def)
  qed
  from split first second
  show "\<exists>pre post.
               announcements_collection s = pre @ d # post \<and>
               delete_announcement announcement_id teacher_username s
                 = (Inr [(''message'', VStr ''Announcement deleted'')],
                    s\<lparr>announcements_collection := pre @ post\<rparr>) \<and>
               (distinct (map (\<lambda>d. map_of d ''_id'') (announcements_collection s)) \<longrightarrow>
                  delete_announcement announcement_id teacher_username
                    (s\<lparr>announcements_collection := pre @ post\<rparr>)
                  = (Inl (HTTPException 404 ''Announcement not found''),
                     s\<lparr>announcements_collection := pre @ post\<rparr>))"
    by blast
qed

theorem delete_announcement_result_witness:
  "truthy_doc (find_one (VStr ''alice'') (teachers_collection example_db)) \<and>
   ObjectId ''000000000000000000000001'' = Some ''000000000000000000000001'' \<and>
   find_one (VOid ''000000000000000000000001'') (announcements_collection example_db)
     = Some ann_exam \<and>
   distinct (map (\<lambda>d. map_of d ''_id'') (announcements_collection example_db)) \<and>
   delete_announcement ''000000000000000000000001'' ''alice'' example_db
     = (Inr [(''message'', VStr ''Announcement deleted'')],
        example_db\<lparr>announcements_collection := [ann_old]\<rparr>) \<and>
   delete_announcement ''000000000000000000000001'' ''alice''
       (example_db\<lparr>announcements_collection := [ann_old]\<rparr>)
     = (Inl (HTTPException 404 ''Announcement not found''),
        example_db\<lparr>announcements_collection := [ann_old]\<rparr>) \<and>
   ObjectId ''00000000000000000000000A'' = Some ''00000000000000000000000a'' \<and>
   find_one (VOid ''00000000000000000000000a'') (announcements_collection example_db) = None \<and>
   delete_announcement ''00000000000000000000000A'' ''alice'' example_db
     = (Inl (HTTPException 404 ''Announcement not found''), example_db)"
proof -
  have a: "truthy_doc (find_one (VStr ''alice'') (teachers_collection example_db))"
    by code_simp
  have i: "ObjectId ''000000000000000000000001'' = Some ''000000000000000000000001''"
    by code_simp
  have f: "find_one (VOid ''000000000000000000000001'') (announcements_collection example_db)
     = Some ann_exam"
    by code_simp
  have dist: "distinct (map (\<lambda>d. map_of d ''_id'') (announcements_collection example_db))"
    by (simp add: example_db_def ann_exam_def ann_old_def)
  have j: "ObjectId ''00000000000000000000000A'' = Some ''00000000000000000000000a''"
    by code_simp
  have n: "find_one (VOid ''00000000000000000000000a'') (announcements_collection example_db)
     = None"
    by code_simp
  have coll: "announcements_collection example_db = [ann_exam, ann_old]"
    by (simp add: example_db_def)
  from delete_announcement_result [OF a i] f dist obtain pre post
    where split: "announcements_collection example_db = pre @ ann_exam # post"
      and first: "delete_announcement ''000000000000000000000001'' ''alice'' example_db
                 = (Inr [(''message'', VStr ''Announcement deleted'')],
                    example_db\<lparr>announcements_collection := pre @ post\<rparr>)"
      and second: "delete_announcement ''000000000000000000000001'' ''alice''
                    (example_db\<lparr>announcements_collection := pre @ post\<rparr>)
                  = (Inl (HTTPException 404 ''Announcement not found''),
                     example_db\<lparr>announcements_collection := pre @ post\<rparr>)"
    by blast
  have ne: "ann_exam \<noteq> ann_old"
    by (simp add: ann_exam_def ann_old_def)
  from split have "pre @ post = [ann_old]"
    unfolding coll using ne by (cases pre) (auto simp: Cons_eq_append_conv)
  with first second
  have "delete_announcement ''000000000000000000000001'' ''alice'' example_db
     = (Inr [(''message'', VStr ''Announcement deleted'')],
        example_db\<lparr>announcements_collection := [ann_old]\<rparr>)"
    and "delete_announcement ''000000000000000000000001'' ''alice''
       (example_db\<lparr>announcements_collection := [ann_old]\<rparr>)
     = (Inl (HTTPException 404 ''Announcement not found''),
        example_db\<lparr>announcements_collection := [ann_old]\<rparr>)"
    by simp_all
  moreover from delete_announcement_result [OF a j] n
  have "delete_announcement ''00000000000000000000000A'' ''alice'' example_db
     = (Inl (HTTPException 404 ''Announcement not found''), example_db)"
    by blast
  ultimately show ?thesis
    using a i f dist j n by blast
qed

section \<open>The ids of the collection stay unique\<close>

text \<open>
  The store keeps the \<^verbatim>\<open>_id\<close> values of a collection distinct. The three writing
  endpoints preserve this: create when the generated id is new, update because
  \<^verbatim>\<open>$set\<close> never touches \<^verbatim>\<open>_id\<close>, delete because it only removes a record.
\<close>

lemma ids_update_one:
  "map_of (set_fields updates ann) ''_id'' = map_of ann ''_id'' \<Longrightarrow>
   find_one k coll = Some ann \<Longrightarrow>
   map (\<lambda>d. map_of d ''_id'') (update_one k updates coll) = map (\<lambda>d. map_of d ''_id'') coll"
  by (induction coll) (auto simp: find_one_def split: if_splits)

lemma ids_delete_one:
  "distinct (map (\<lambda>d. map_of d ''_id'') coll) \<Longrightarrow>
   distinct (map (\<lambda>d. map_of d ''_id'') (fst (delete_one k coll)))"
proof (cases "find_one k coll")
  case None
  assume "distinct (map (\<lambda>d. map_of d ''_id'') coll)"
  with delete_one_none [OF None] show ?thesis by simp
next
  case (Some d)
  assume dist: "distinct (map (\<lambda>d. map_of d ''_id'') coll)"
  from delete_one_some [OF Some] obtain pre post
    where "coll = pre @ d # post" "delete_one k coll = (pre @ post, 1)"
    by blast
  with dist show ?thesis by auto
qed

lemma create_keeps_ids_unique:
  assumes "distinct (map (\<lambda>d. map_of d ''_id'') (announcements_collection s))"
    and "\<forall>d \<in> set (announcements_collection s). map_of d ''_id'' \<noteq> Some (VOid inserted_id)"
  shows "distinct (map (\<lambda>d. map_of d ''_id'')
           (announcements_collection
              (snd (create_announcement title message expire_date start_date teacher_username
                      inserted_id utcnow s))))"
  using assms
  by (auto simp: create_announcement_def insert_one_def Let_def split: option.splits)

lemma update_keeps_ids_unique:
  assumes "distinct (map (\<lambda>d. map_of d ''_id'') (announcements_collection s))"
  shows "distinct (map (\<lambda>d. map_of d ''_id'')
           (announcements_collection
              (snd (update_announcement announcement_id title message expire_date start_date
                      teacher_username s))))"
proof (cases "truthy_doc (find_one (VStr teacher_username) (teachers_collection s))")
  case no_teacher: False
  with assms show ?thesis by (simp add: update_announcement_def)
next
  case auth: True
  show ?thesis
  proof (cases "ObjectId announcement_id")
    case None
    with auth assms show ?thesis by (simp add: update_announcement_def)
  next
    case oid: (Some i)
    show ?thesis
    proof (cases "find_one (VOid i) (announcements_collection s)")
      case None
      with auth oid assms show ?thesis by (simp add: update_announcement_def)
    next
      case found: (Some ann)
      then have tr: "truthy_doc (Some ann)"
        by (auto dest: find_one_Some)
      show ?thesis
      proof (cases "expire_date \<noteq> None \<and> parse_date (optional expire_date) = None")
        case True
        with auth oid found tr assms show ?thesis
          by (simp add: update_announcement_def Let_def)
      next
        case expire: False
        show ?thesis
        proof (cases "start_date \<noteq> None \<and> start_date \<noteq> Some [] \<and>
             parse_date (optional start_date) = None")
          case True
          with expire auth oid found tr assms show ?thesis
            by (simp add: update_announcement_def Let_def)
        next
          case start: False
          let ?ups = "built_updates title message expire_date start_date"
          from expire have e: "expire_date = None \<or> parse_date (optional expire_date) \<noteq> None"
            by simp
          from start have st: "start_date = None \<or> start_date = Some [] \<or>
              parse_date (optional start_date) \<noteq> None"
            by simp
          have "map_of (set_fields ?ups ann) ''_id'' = map_of ann ''_id''"
            by (simp add: map_of_set_fields [OF distinct_built_updates] map_add_def
                map_of_built_updates)
          from ids_update_one [OF this found] assms
          have "distinct (map (\<lambda>d. map_of d ''_id'')
                  (update_one (VOid i) ?ups (announcements_collection s)))"
            by simp
          with assms show ?thesis
            by (simp add: update_announcement_checked [OF auth oid found e st]
                split: option.splits)
        qed
      qed
    qed
  qed
qed

lemma delete_keeps_ids_unique:
  assumes "distinct (map (\<lambda>d. map_of d ''_id'') (announcements_collection s))"
  shows "distinct (map (\<lambda>d. map_of d ''_id'')
           (announcements_collection (snd (delete_announcement announcement_id teacher_username s))))"
proof (cases "truthy_doc (find_one (VStr teacher_username) (teachers_collection s))")
  case False
  with assms show ?thesis by (simp add: delete_announcement_def)
next
  case True
  show ?thesis
  proof (cases "ObjectId announcement_id")
    case None
    with True assms show ?thesis by (simp add: delete_announcement_def)
  next
    case (Some i)
    obtain coll n where del: "delete_one (VOid i) (announcements_collection s) = (coll, n)"
      by (cases "delete_one (VOid i) (announcements_collection s)")
    with ids_delete_one [OF assms, of "VOid i"]
    have "distinct (map (\<lambda>d. map_of d ''_id'') coll)"
      by simp
    with True Some del show ?thesis
      by (simp add: delete_announcement_def)
  qed
qed

end
